theory Spec2Isabelle
  imports Complex_Main "HOL-Library.Sublist"
begin

section \<open>The example script \<open>ExecModel_Burger.py\<close> over its modelling library\<close>

text \<open>
  The script \<open>examples/hamburger_standard/ExecModel_Burger.py\<close> is a module body: a
  straight line of assignments and of calls into the package \<open>sf3dmodels\<close>
  (\<open>Model\<close>, \<open>Res\<close>, \<open>Plot_model\<close>, the constants of \<open>U\<close>), \<open>time\<close>, \<open>print\<close>,
  \<open>numpy\<close> and \<open>matplotlib.colors\<close>. The package is not part of the file, so the
  embedding takes it as a parameter: its constants as a record of reals, its functions
  as state transformers that may raise. Python floats are modelled as reals.

  The calls of \<open>time.time\<close>, of \<open>print\<close> and of the functions of \<open>Model\<close>, \<open>Res\<close> and
  \<open>Plot_model\<close> are calls into the library, and logged. The three constructors of plain
  values, \<open>Model.Struct\<close>, \<open>np.array\<close> on two literals and \<open>colors.LogNorm\<close>, are
  modelled as the values they build.
\<close>

subsection \<open>Exceptions and float division\<close>

datatype exn = ZeroDivisionError | Raised string

definition truediv :: "real \<Rightarrow> real \<Rightarrow> exn + real" where
  \<comment> \<open>Python's \<open>x / y\<close> on floats: a zero divisor raises.\<close>
  "truediv x y = (if y = 0 then Inl ZeroDivisionError else Inr (x / y))"

definition and_then :: "exn + 'a \<Rightarrow> ('a \<Rightarrow> exn + 'b) \<Rightarrow> exn + 'b" where
  \<comment> \<open>Sequencing of two expressions: an exception of the first skips the second.\<close>
  "and_then r k = (case r of Inl e \<Rightarrow> Inl e | Inr a \<Rightarrow> k a)"

subsection \<open>General parameters (lines 22 to 27)\<close>

record units =
  MSun :: real
  MSun_yr :: real
  RSun :: real
  LSun :: real
  TSun :: real
  AU :: real

record stellar =
  MStar :: real
  MRate :: real
  RStar :: real
  LStar :: real
  TStar :: real
  Rd :: real

definition general_parameters :: "units \<Rightarrow> exn + stellar" where
  \<comment> \<open>\<open>**0.8\<close> and \<open>**0.25\<close> are real powers (\<open>powr\<close>), \<open>**4\<close> and \<open>**2\<close> integer powers.
      Every \<open>/\<close> of the source is a \<open>truediv\<close>, in the source's order of evaluation.\<close>
  "general_parameters U =
     (let mstar = 0.86 * MSun U;
          mrate = 5 / 10 ^ 6 * MSun_yr U
      in and_then (truediv mstar (MSun U)) (\<lambda>m1.
         let rstar = RSun U * m1 powr 0.8
         in and_then (truediv mstar (MSun U)) (\<lambda>m2.
            let lstar = LSun U * m2 ^ 4
            in and_then (truediv lstar (LSun U)) (\<lambda>l.
               and_then (truediv rstar (RSun U)) (\<lambda>r.
               and_then (truediv l (r ^ 2)) (\<lambda>q.
               let tstar = TSun U * q powr 0.25
               in Inr \<lparr>MStar = mstar, MRate = mrate, RStar = rstar, LStar = lstar,
                       TStar = tstar, Rd = 264 * AU U\<rparr>))))))"

subsection \<open>Fields and the aggregates the library returns\<close>

text \<open>
  Modelled from the spec: the types of the objects that the library's constructors
  return are declared in the library, not in the script. A density or temperature
  field is "per-grid-point scalar values": a function from the index of a grid point
  to a real, so that arithmetic between two fields of one grid is element-wise at every
  point. An aggregate is a record of the attributes that the script reads; attributes
  that the script only passes on have the opaque type \<open>'o\<close>.
\<close>

type_synonym field = "nat \<Rightarrow> real"

record 'o grid =
  NPoints :: int
  grid_rest :: 'o

record 'o env_density =
  env_total :: field
  env_r_env :: 'o
  env_streamline :: 'o

record 'o disc_density =
  disc_total :: field
  disc_H :: 'o
  disc_Rt :: 'o
  disc_r_disc :: 'o

record 'o temperature =
  temp_total :: field
  temp_rest :: 'o

text \<open>
  Modelled from the spec: \<open>Model.Struct\<close> is the library's attribute container; the
  object built from keyword arguments holds, under each keyword, the value given.
\<close>

record 'o Struct =
  total :: field
  disc :: field
  env :: field
  H :: 'o
  Rt :: 'o
  discFlag :: bool
  envFlag :: bool
  r_disc :: 'o
  r_env :: 'o
  streamline :: 'o

definition field_add :: "field \<Rightarrow> field \<Rightarrow> field" where
  "field_add a b = (\<lambda>i. a i + b i)"

definition field_mul :: "field \<Rightarrow> field \<Rightarrow> field" where
  "field_mul a b = (\<lambda>i. a i * b i)"

definition field_div :: "field \<Rightarrow> real \<Rightarrow> field" where
  "field_div a c = (\<lambda>i. a i / c)"

definition composite_density :: "'o env_density \<Rightarrow> 'o disc_density \<Rightarrow> 'o Struct" where
  \<comment> \<open>Lines 64 to 73.\<close>
  "composite_density densEnv densDisc =
     \<lparr>total = field_add (env_total densEnv) (disc_total densDisc),
      disc = disc_total densDisc,
      env = env_total densEnv,
      H = disc_H densDisc,
      Rt = disc_Rt densDisc,
      discFlag = True,
      envFlag = True,
      r_disc = disc_r_disc densDisc,
      r_env = env_r_env densEnv,
      streamline = env_streamline densEnv\<rparr>"

subsection \<open>Arguments of \<open>print\<close> and of the plotting functions\<close>

datatype pitem =
    Str string
  | Num real
  | Fmt string real  \<comment> \<open>\<open>fmt % x\<close> with a float conversion, left unformatted\<close>

record lognorm =
  \<comment> \<open>\<open>colors.LogNorm(vmin=..., vmax=...)\<close>\<close>
  vmin :: real
  vmax :: real

record 'o plot_args =
  plot_GRID :: "'o grid"
  plot_data :: field
  axisunit :: real
  cmap :: string
  plot_norm :: lognorm
  colorlabel :: string
  plot_output :: string
  show_flag :: bool

record 'o scatter3D_args = "'o plot_args" +
  weight :: real
  NRand :: int
  colordim :: field

record 'o plane2D_args = "'o plot_args" +
  plane :: "(string \<times> real) list"

fun percent_s :: "string \<Rightarrow> string \<Rightarrow> string" where
  \<comment> \<open>\<open>fmt % arg\<close> for a format holding one \<open>%s\<close>\<close>
  "percent_s (CHR ''%'' # CHR ''s'' # rest) arg = arg @ rest"
| "percent_s (c # rest) arg = c # percent_s rest arg"
| "percent_s [] arg = []"

subsection \<open>The library and the calls into it\<close>

text \<open>
  A library function reads and changes the world outside the script (files, the
  terminal, the clock) and returns a value or raises. Positional arguments are a tuple
  in the order of the call; the plotting functions, called with keywords, take a record.
\<close>

type_synonym ('w, 'a) libfun = "'w \<Rightarrow> (exn + 'a) \<times> 'w"

type_synonym 'o Env_Disc_args =
  "real \<times> real \<times> real \<times> real option \<times> 'o grid \<times> bool \<times> bool \<times> real"
  \<comment> \<open>RStar, Rd, Rho0, Arho, GRID, discFlag, envFlag, renv_max\<close>

type_synonym 'o Hamburgers_args =
  "real \<times> real \<times> real \<times> real \<times> real \<times> 'o grid \<times> bool \<times> real"
  \<comment> \<open>RStar, H0sf, Rd, Rho0, Arho, GRID, discFlag, rdisc_max\<close>

type_synonym 'o temperature_args =
  "real \<times> real \<times> real \<times> real \<times> real \<times> real \<times> real \<times> 'o Struct \<times> 'o grid \<times> real \<times> bool"
  \<comment> \<open>TStar, RStar, MStar, MRate, Rd, T10Env, BT, density, GRID, Tmin_disc, inverted\<close>

type_synonym 'o velocity_args = "real \<times> real \<times> real \<times> 'o Struct \<times> 'o grid"
  \<comment> \<open>RStar, MStar, Rd, density, GRID\<close>

type_synonym 'o LIME_args = "field \<times> field \<times> 'o \<times> 'o \<times> 'o \<times> 'o grid"
  \<comment> \<open>density, temperature, velocity, abundance, gas-to-dust ratio, GRID\<close>

type_synonym 'o properties_args = "'o Struct \<times> 'o temperature \<times> 'o grid"

record ('w, 'o) library =
  time_time :: "('w, real) libfun"
  print :: "pitem list \<Rightarrow> ('w, unit) libfun"
  Model_grid :: "real list \<times> int list \<Rightarrow> ('w, 'o grid) libfun"
  Res_Rho0 :: "real \<times> real \<times> real \<Rightarrow> ('w, real) libfun"
  Model_density_Env_Disc :: "'o Env_Disc_args \<Rightarrow> ('w, 'o env_density) libfun"
  Model_density_Hamburgers :: "'o Hamburgers_args \<Rightarrow> ('w, 'o disc_density) libfun"
  Model_temperature_Hamburgers :: "'o temperature_args \<Rightarrow> ('w, 'o temperature) libfun"
  Model_velocity :: "'o velocity_args \<Rightarrow> ('w, 'o) libfun"
  Model_abundance :: "real \<times> int \<Rightarrow> ('w, 'o) libfun"
  Model_gastodust :: "real \<times> int \<Rightarrow> ('w, 'o) libfun"
  Model_DataTab_LIME :: "'o LIME_args \<Rightarrow> ('w, unit) libfun"
  Model_PrintProperties :: "'o properties_args \<Rightarrow> ('w, unit) libfun"
  Plot_model_scatter3D :: "'o scatter3D_args \<Rightarrow> ('w, unit) libfun"
  Plot_model_plane2D :: "'o plane2D_args \<Rightarrow> ('w, unit) libfun"

text \<open>
  The run keeps a log of the calls it makes: each entry holds the arguments passed and
  what the call did, a returned value (\<open>Inr\<close>) or a raised exception (\<open>Inl\<close>).
\<close>

datatype 'o event =
    Call_time "exn + real"
  | Call_print "pitem list" "exn + unit"
  | Call_grid "real list \<times> int list" "exn + 'o grid"
  | Call_Rho0 "real \<times> real \<times> real" "exn + real"
  | Call_density_Env_Disc "'o Env_Disc_args" "exn + 'o env_density"
  | Call_density_Hamburgers "'o Hamburgers_args" "exn + 'o disc_density"
  | Call_temperature_Hamburgers "'o temperature_args" "exn + 'o temperature"
  | Call_velocity "'o velocity_args" "exn + 'o"
  | Call_abundance "real \<times> int" "exn + 'o"
  | Call_gastodust "real \<times> int" "exn + 'o"
  | Call_DataTab_LIME "'o LIME_args" "exn + unit"
  | Call_PrintProperties "'o properties_args" "exn + unit"
  | Call_scatter3D "'o scatter3D_args" "exn + unit"
  | Call_plane2D "'o plane2D_args" "exn + unit"

text \<open>
  The state of a run: the process's command line and environment, the world that the
  library acts on, and the log. The library sees the world only.
\<close>

record ('w, 'o) state =
  argv :: "string list"
  environ :: "(string \<times> string) list"
  world :: 'w
  trace :: "'o event list"

type_synonym ('w, 'o, 'a) prog = "('w, 'o) state \<Rightarrow> (exn + 'a) \<times> ('w, 'o) state"

definition evaluate :: "exn + 'a \<Rightarrow> ('w, 'o, 'a) prog" where
  \<comment> \<open>An expression of the script itself: no call, no change of state.\<close>
  "evaluate r s = (r, s)"

definition call :: "('a \<Rightarrow> exn + 'b \<Rightarrow> 'o event) \<Rightarrow> ('a \<Rightarrow> ('w, 'b) libfun) \<Rightarrow> 'a \<Rightarrow> ('w, 'o, 'b) prog" where
  "call ev f a s =
     (case f a (world s) of
        (r, w) \<Rightarrow> (r, s\<lparr>world := w, trace := trace s @ [ev a r]\<rparr>))"

definition seq :: "('w, 'o, 'a) prog \<Rightarrow> ('a \<Rightarrow> ('w, 'o, 'b) prog) \<Rightarrow> ('w, 'o, 'b) prog" where
  \<comment> \<open>One statement after another: an exception ends the run where it is raised.\<close>
  "seq m k s =
     (case m s of
        (Inl e, s') \<Rightarrow> (Inl e, s')
      | (Inr a, s') \<Rightarrow> k a s')"

subsection \<open>The arguments the script builds\<close>

definition header_items :: "units \<Rightarrow> stellar \<Rightarrow> exn + pitem list" where
  \<comment> \<open>Line 29.\<close>
  "header_items U p =
     and_then (truediv (RStar p) (RSun U)) (\<lambda>r.
     and_then (truediv (LStar p) (LSun U)) (\<lambda>l.
     Inr [Str ''RStar:'', Num r, Str '', LStar:'', Num l, Str '', TStar:'', Num (TStar p)]))"

definition grid_args :: "units \<Rightarrow> real list \<times> int list" where
  \<comment> \<open>Lines 36 to 38.\<close>
  "grid_args U =
     (let sizex = 500 * AU U; sizey = sizex; sizez = sizex;
          Nx = 200; Ny = Nx; Nz = Nx
      in ([sizex, sizey, sizez], [Nx, Ny, Nz]))"

definition Env_Disc_args :: "stellar \<Rightarrow> real \<Rightarrow> 'o grid \<Rightarrow> 'o Env_Disc_args" where
  \<comment> \<open>Lines 49 to 52.\<close>
  "Env_Disc_args p Rho0 GRID =
     (let Arho = None; Renv = 2.5 * Rd p
      in (RStar p, Rd p, Rho0, Arho, GRID, False, True, Renv))"

definition Hamburgers_args :: "stellar \<Rightarrow> real \<Rightarrow> 'o grid \<Rightarrow> 'o Hamburgers_args" where
  \<comment> \<open>Lines 56 to 60.\<close>
  "Hamburgers_args p Rho0 GRID =
     (let H0sf = 0.03; Arho = 5.25; Rdisc = 1.5 * Rd p
      in (RStar p, H0sf, Rd p, Rho0, Arho, GRID, True, Rdisc))"

definition T10Env :: real where
  "T10Env = 250"

definition temperature_args :: "stellar \<Rightarrow> 'o Struct \<Rightarrow> 'o grid \<Rightarrow> 'o temperature_args" where
  \<comment> \<open>Lines 78 to 82.\<close>
  "temperature_args p density GRID =
     (let Tmin = 10; BT = 60
      in (TStar p, RStar p, MStar p, MRate p, Rd p, T10Env, BT, density, GRID, Tmin, False))"

definition tag :: string where
  "tag = ''Burger''"

definition dens_plot :: "'o Struct \<Rightarrow> field" where
  \<comment> \<open>Line 118.\<close>
  "dens_plot density = field_div (total density) (10 ^ 6)"

definition array_div :: "real \<times> real \<Rightarrow> real \<Rightarrow> real \<times> real" where
  \<comment> \<open>\<open>np.array([a, b]) / c\<close>: the array of two literals, divided element by element.\<close>
  "array_div v c = (fst v / c, snd v / c)"

definition LogNorm :: "real \<times> real \<Rightarrow> lognorm" where
  \<comment> \<open>\<open>vmin, vmax = v\<close>, then \<open>colors.LogNorm(vmin=vmin, vmax=vmax)\<close>: the norm object
      holds the two bounds.\<close>
  "LogNorm v = \<lparr>vmin = fst v, vmax = snd v\<rparr>"

definition scatter_args :: "units \<Rightarrow> 'o grid \<Rightarrow> 'o Struct \<Rightarrow> 'o temperature \<Rightarrow> 'o scatter3D_args" where
  \<comment> \<open>Lines 120 to 125.\<close>
  "scatter_args U GRID density temperature =
     \<lparr>plot_GRID = GRID, plot_data = temp_total temperature, axisunit = AU U,
      cmap = ''hot'', plot_norm = LogNorm (array_div (5 * 10 ^ 11, 5 * 10 ^ 15) (10 ^ 6)),
      colorlabel = ''$'' @ [CHR 0x5C] @ ''rho$ $[cm^{-3}]$'',
      plot_output = percent_s ''3Dpoints%s.png'' tag, show_flag = False,
      weight = 10 * T10Env, NRand = 4000, colordim = dens_plot density\<rparr>"

definition cm3 :: string where
  \<comment> \<open>\<open>r'$[\rm cm^{-3}]$'\<close>\<close>
  "cm3 = ''$['' @ [CHR 0x5C] @ ''rm cm^{-3}]$''"

definition DensMidplane_args :: "units \<Rightarrow> 'o grid \<Rightarrow> 'o Struct \<Rightarrow> 'o plane2D_args" where
  \<comment> \<open>Lines 131 to 135.\<close>
  "DensMidplane_args U GRID density =
     \<lparr>plot_GRID = GRID, plot_data = dens_plot density, axisunit = AU U,
      cmap = ''ocean_r'', plot_norm = LogNorm (array_div (10 ^ 12, 10 ^ 17) (10 ^ 6)),
      colorlabel = cm3, plot_output = percent_s ''DensMidplane_%s.png'' tag,
      show_flag = False, plane = [(''z'', 0 * AU U)]\<rparr>"

definition DensVertical_args :: "units \<Rightarrow> 'o grid \<Rightarrow> 'o Struct \<Rightarrow> 'o plane2D_args" where
  \<comment> \<open>Lines 137 to 141.\<close>
  "DensVertical_args U GRID density =
     \<lparr>plot_GRID = GRID, plot_data = dens_plot density, axisunit = AU U,
      cmap = ''ocean_r'', plot_norm = LogNorm (array_div (10 ^ 11, 5 * 10 ^ 15) (10 ^ 6)),
      colorlabel = cm3, plot_output = percent_s ''DensVertical_%s.png'' tag,
      show_flag = False, plane = [(''y'', 0 * AU U)]\<rparr>"

definition TempMidplane_args :: "units \<Rightarrow> 'o grid \<Rightarrow> 'o temperature \<Rightarrow> 'o plane2D_args" where
  \<comment> \<open>Lines 143 to 147.\<close>
  "TempMidplane_args U GRID temperature =
     \<lparr>plot_GRID = GRID, plot_data = temp_total temperature, axisunit = AU U,
      cmap = ''ocean_r'', plot_norm = LogNorm (5 * 10, 3 * 10 ^ 3),
      colorlabel = ''[Kelvin]'', plot_output = percent_s ''TempMidplane_%s.png'' tag,
      show_flag = False, plane = [(''z'', 0 * AU U)]\<rparr>"

definition TempVertical_args :: "units \<Rightarrow> 'o grid \<Rightarrow> 'o temperature \<Rightarrow> 'o plane2D_args" where
  \<comment> \<open>Lines 149 to 153.\<close>
  "TempVertical_args U GRID temperature =
     \<lparr>plot_GRID = GRID, plot_data = temp_total temperature, axisunit = AU U,
      cmap = ''ocean_r'', plot_norm = LogNorm (5 * 10, 2 * 10 ^ 3),
      colorlabel = ''[Kelvin]'', plot_output = percent_s ''TempVertical_%s.png'' tag,
      show_flag = False, plane = [(''y'', 0 * AU U)]\<rparr>"

definition Emissivity_args :: "units \<Rightarrow> 'o grid \<Rightarrow> 'o Struct \<Rightarrow> 'o temperature \<Rightarrow> 'o plane2D_args" where
  \<comment> \<open>Lines 156 to 160.\<close>
  "Emissivity_args U GRID density temperature =
     \<lparr>plot_GRID = GRID, plot_data = field_mul (temp_total temperature) (dens_plot density),
      axisunit = AU U, cmap = ''ocean_r'',
      plot_norm = LogNorm (3 * 10 ^ 7, 5 * 10 ^ 12),
      colorlabel = ''[$'' @ [CHR 0x5C] @ ''rho$ T]'',
      plot_output = percent_s ''Emissivity_%s.png'' tag,
      show_flag = False, plane = [(''y'', 0 * AU U)]\<rparr>"

definition rule_lines :: string where
  \<comment> \<open>The literal of line 112: two rules of 49 dashes, each ended by a newline.\<close>
  "rule_lines = replicate 49 CHR ''-'' @ [CHR 0x0A] @ replicate 49 CHR ''-'' @ [CHR 0x0A]"

subsection \<open>The module body\<close>

text \<open>
  Lines 17 to 160, statement by statement: the reading of the clock (line 17), the
  general parameters (22 to 27), the first print (29), the grid (38), the envelope
  (48 to 52), the disc (59), the composite density (64 to 73), the temperature (81),
  the velocity (87), the abundance and the gas-to-dust ratio (93, 96), the export (101),
  the properties (106), the timing (111, 112) and the six plots (124 to 160). The script
  has no \<open>try\<close>, no \<open>if\<close> and no loop: each statement runs when the one before it
  has returned, and an exception ends the run.
\<close>

definition ExecModel_Burger :: "units \<Rightarrow> ('w, 'o) library \<Rightarrow> ('w, 'o, unit) prog" where
  "ExecModel_Burger U L =
     seq (call (\<lambda>_. Call_time) (\<lambda>_. time_time L) ()) (\<lambda>t0.
     seq (evaluate (general_parameters U)) (\<lambda>p.
     seq (evaluate (header_items U p)) (\<lambda>items.
     seq (call Call_print (print L) items) (\<lambda>_.
     seq (call Call_grid (Model_grid L) (grid_args U)) (\<lambda>GRID.
     seq (call Call_Rho0 (Res_Rho0 L) (MRate p, Rd p, MStar p)) (\<lambda>Rho0.
     seq (call Call_density_Env_Disc (Model_density_Env_Disc L) (Env_Disc_args p Rho0 GRID)) (\<lambda>densEnv.
     seq (call Call_density_Hamburgers (Model_density_Hamburgers L) (Hamburgers_args p Rho0 GRID)) (\<lambda>densDisc.
     let density = composite_density densEnv densDisc in
     seq (call Call_temperature_Hamburgers (Model_temperature_Hamburgers L)
            (temperature_args p density GRID)) (\<lambda>temperature.
     seq (call Call_velocity (Model_velocity L) (RStar p, MStar p, Rd p, density, GRID)) (\<lambda>vel.
     seq (call Call_abundance (Model_abundance L) (5 / 10 ^ 8, NPoints GRID)) (\<lambda>abundance.
     seq (call Call_gastodust (Model_gastodust L) (100, NPoints GRID)) (\<lambda>gtdratio.
     seq (call Call_DataTab_LIME (Model_DataTab_LIME L)
            (total density, temp_total temperature, vel, abundance, gtdratio, GRID)) (\<lambda>_.
     seq (call Call_PrintProperties (Model_PrintProperties L) (density, temperature, GRID)) (\<lambda>_.
     seq (call (\<lambda>_. Call_time) (\<lambda>_. time_time L) ()) (\<lambda>t1.
     seq (call Call_print (print L) [Fmt ''Ellapsed time: %.3fs'' (t1 - t0)]) (\<lambda>_.
     seq (call Call_print (print L) [Str rule_lines]) (\<lambda>_.
     seq (call Call_scatter3D (Plot_model_scatter3D L) (scatter_args U GRID density temperature)) (\<lambda>_.
     seq (call Call_plane2D (Plot_model_plane2D L) (DensMidplane_args U GRID density)) (\<lambda>_.
     seq (call Call_plane2D (Plot_model_plane2D L) (DensVertical_args U GRID density)) (\<lambda>_.
     seq (call Call_plane2D (Plot_model_plane2D L) (TempMidplane_args U GRID temperature)) (\<lambda>_.
     seq (call Call_plane2D (Plot_model_plane2D L) (TempVertical_args U GRID temperature)) (\<lambda>_.
     call Call_plane2D (Plot_model_plane2D L) (Emissivity_args U GRID density temperature)
     ))))))))))))))))))))))"

subsection \<open>Runs\<close>

definition initial :: "string list \<Rightarrow> (string \<times> string) list \<Rightarrow> 'w \<Rightarrow> ('w, 'o) state" where
  "initial av en w = \<lparr>argv = av, environ = en, world = w, trace = []\<rparr>"

definition run :: "units \<Rightarrow> ('w, 'o) library \<Rightarrow> string list \<Rightarrow> (string \<times> string) list \<Rightarrow> 'w
    \<Rightarrow> (exn + unit) \<times> ('w, 'o) state" where
  "run U L av en w = ExecModel_Burger U L (initial av en w)"

definition run_result :: "units \<Rightarrow> ('w, 'o) library \<Rightarrow> string list \<Rightarrow> (string \<times> string) list \<Rightarrow> 'w
    \<Rightarrow> exn + unit" where
  "run_result U L av en w = fst (run U L av en w)"

definition run_log :: "units \<Rightarrow> ('w, 'o) library \<Rightarrow> string list \<Rightarrow> (string \<times> string) list \<Rightarrow> 'w
    \<Rightarrow> 'o event list" where
  "run_log U L av en w = trace (snd (run U L av en w))"

definition run_world :: "units \<Rightarrow> ('w, 'o) library \<Rightarrow> string list \<Rightarrow> (string \<times> string) list \<Rightarrow> 'w
    \<Rightarrow> 'w" where
  "run_world U L av en w = world (snd (run U L av en w))"

section \<open>Reading the log\<close>

subsection \<open>Which function was called, and in which part of the script\<close>

datatype fn =
    F_time | F_print | F_grid | F_Rho0 | F_density_Env_Disc | F_density_Hamburgers
  | F_temperature_Hamburgers | F_velocity | F_abundance | F_gastodust | F_DataTab_LIME
  | F_PrintProperties | F_scatter3D | F_plane2D

fun fn_of :: "'o event \<Rightarrow> fn" where
  "fn_of (Call_time _) = F_time"
| "fn_of (Call_print _ _) = F_print"
| "fn_of (Call_grid _ _) = F_grid"
| "fn_of (Call_Rho0 _ _) = F_Rho0"
| "fn_of (Call_density_Env_Disc _ _) = F_density_Env_Disc"
| "fn_of (Call_density_Hamburgers _ _) = F_density_Hamburgers"
| "fn_of (Call_temperature_Hamburgers _ _) = F_temperature_Hamburgers"
| "fn_of (Call_velocity _ _) = F_velocity"
| "fn_of (Call_abundance _ _) = F_abundance"
| "fn_of (Call_gastodust _ _) = F_gastodust"
| "fn_of (Call_DataTab_LIME _ _) = F_DataTab_LIME"
| "fn_of (Call_PrintProperties _ _) = F_PrintProperties"
| "fn_of (Call_scatter3D _ _) = F_scatter3D"
| "fn_of (Call_plane2D _ _) = F_plane2D"

definition calls_in_order :: "fn list" where
  \<comment> \<open>The logged call sites of the module body, from line 17 to line 160.\<close>
  "calls_in_order =
     [F_time, F_print, F_grid, F_Rho0, F_density_Env_Disc, F_density_Hamburgers,
      F_temperature_Hamburgers, F_velocity, F_abundance, F_gastodust, F_DataTab_LIME,
      F_PrintProperties, F_time, F_print, F_print, F_scatter3D, F_plane2D, F_plane2D,
      F_plane2D, F_plane2D, F_plane2D]"

datatype stage =
    Grid_creation | Envelope_density | Disc_density | Temperature | Velocity | Abundance
  | Gas_to_dust | File_export | Property_printing | Plotting

fun stage_of :: "fn \<Rightarrow> stage option" where
  \<comment> \<open>The section of the script, by its heading comment, that holds the call; the timing
      and the prints around the sections belong to none.\<close>
  "stage_of F_time = None"
| "stage_of F_print = None"
| "stage_of F_grid = Some Grid_creation"
| "stage_of F_Rho0 = Some Envelope_density"
| "stage_of F_density_Env_Disc = Some Envelope_density"
| "stage_of F_density_Hamburgers = Some Disc_density"
| "stage_of F_temperature_Hamburgers = Some Temperature"
| "stage_of F_velocity = Some Velocity"
| "stage_of F_abundance = Some Abundance"
| "stage_of F_gastodust = Some Gas_to_dust"
| "stage_of F_DataTab_LIME = Some File_export"
| "stage_of F_PrintProperties = Some Property_printing"
| "stage_of F_scatter3D = Some Plotting"
| "stage_of F_plane2D = Some Plotting"

definition pipeline :: "'o event list \<Rightarrow> stage list" where
  \<comment> \<open>The stages a log went through: consecutive calls of one stage count once.\<close>
  "pipeline evs = remdups_adj (List.map_filter stage_of (map fn_of evs))"

definition stages_in_order :: "stage list" where
  "stages_in_order =
     [Grid_creation, Envelope_density, Disc_density, Temperature, Velocity, Abundance,
      Gas_to_dust, File_export, Property_printing, Plotting]"

subsection \<open>Image files, exceptions, exports\<close>

fun image_file :: "'o event \<Rightarrow> (fn \<times> string) option" where
  \<comment> \<open>The image a call is asked to write: the \<open>output\<close> keyword of a plotting call.\<close>
  "image_file (Call_scatter3D a _) = Some (F_scatter3D, plot_output a)"
| "image_file (Call_plane2D a _) = Some (F_plane2D, plot_output a)"
| "image_file _ = None"

definition images :: "'o event list \<Rightarrow> (fn \<times> string) list" where
  "images evs = List.map_filter image_file evs"

definition scatter_files :: "'o event list \<Rightarrow> string list" where
  "scatter_files evs = map snd (filter (\<lambda>x. fst x = F_scatter3D) (images evs))"

definition plane_files :: "'o event list \<Rightarrow> string list" where
  "plane_files evs = map snd (filter (\<lambda>x. fst x = F_plane2D) (images evs))"

definition exception_of :: "exn + 'a \<Rightarrow> exn option" where
  "exception_of r = (case r of Inl e \<Rightarrow> Some e | Inr _ \<Rightarrow> None)"

fun raised :: "'o event \<Rightarrow> exn option" where
  "raised (Call_time r) = exception_of r"
| "raised (Call_print _ r) = exception_of r"
| "raised (Call_grid _ r) = exception_of r"
| "raised (Call_Rho0 _ r) = exception_of r"
| "raised (Call_density_Env_Disc _ r) = exception_of r"
| "raised (Call_density_Hamburgers _ r) = exception_of r"
| "raised (Call_temperature_Hamburgers _ r) = exception_of r"
| "raised (Call_velocity _ r) = exception_of r"
| "raised (Call_abundance _ r) = exception_of r"
| "raised (Call_gastodust _ r) = exception_of r"
| "raised (Call_DataTab_LIME _ r) = exception_of r"
| "raised (Call_PrintProperties _ r) = exception_of r"
| "raised (Call_scatter3D _ r) = exception_of r"
| "raised (Call_plane2D _ r) = exception_of r"

fun uncaught :: "exn + 'a \<Rightarrow> 'o event list \<Rightarrow> bool" where
  \<comment> \<open>No call of the log raised, except that the last one may have, with the exception
      that is the result.\<close>
  "uncaught r [] = True"
| "uncaught r [ev] = (case raised ev of None \<Rightarrow> True | Some e \<Rightarrow> r = Inl e)"
| "uncaught r (ev # evs) = (raised ev = None \<and> uncaught r evs)"

definition all_returned :: "'o event list \<Rightarrow> bool" where
  \<comment> \<open>Every call of the log returned normally.\<close>
  "all_returned evs = list_all (\<lambda>ev. raised ev = None) evs"

fun exported :: "'o event \<Rightarrow> 'o LIME_args option" where
  "exported (Call_DataTab_LIME a _) = Some a"
| "exported _ = None"

definition exports :: "'o event list \<Rightarrow> 'o LIME_args list" where
  "exports evs = List.map_filter exported evs"

definition exported_density_at :: "nat \<Rightarrow> 'o event list \<Rightarrow> real list" where
  \<comment> \<open>The density argument of each export, read at one grid point.\<close>
  "exported_density_at i evs = map (\<lambda>a. fst a i) (exports evs)"

subsection \<open>Objects created and objects passed\<close>

definition returned :: "exn + 'a \<Rightarrow> 'a list" where
  "returned r = (case r of Inl _ \<Rightarrow> [] | Inr a \<Rightarrow> [a])"

fun grid_made :: "'o event \<Rightarrow> 'o grid list" where
  "grid_made (Call_grid _ r) = returned r"
| "grid_made _ = []"

fun env_made :: "'o event \<Rightarrow> 'o env_density list" where
  "env_made (Call_density_Env_Disc _ r) = returned r"
| "env_made _ = []"

fun disc_made :: "'o event \<Rightarrow> 'o disc_density list" where
  "disc_made (Call_density_Hamburgers _ r) = returned r"
| "disc_made _ = []"

fun temperature_made :: "'o event \<Rightarrow> 'o temperature list" where
  "temperature_made (Call_temperature_Hamburgers _ r) = returned r"
| "temperature_made _ = []"

fun velocity_made :: "'o event \<Rightarrow> 'o list" where
  "velocity_made (Call_velocity _ r) = returned r"
| "velocity_made _ = []"

fun abundance_made :: "'o event \<Rightarrow> 'o list" where
  "abundance_made (Call_abundance _ r) = returned r"
| "abundance_made _ = []"

fun gtdratio_made :: "'o event \<Rightarrow> 'o list" where
  "gtdratio_made (Call_gastodust _ r) = returned r"
| "gtdratio_made _ = []"

fun grid_passed :: "'o event \<Rightarrow> 'o grid list" where
  "grid_passed (Call_density_Env_Disc (_, _, _, _, g, _) _) = [g]"
| "grid_passed (Call_density_Hamburgers (_, _, _, _, _, g, _) _) = [g]"
| "grid_passed (Call_temperature_Hamburgers (_, _, _, _, _, _, _, _, g, _) _) = [g]"
| "grid_passed (Call_velocity (_, _, _, _, g) _) = [g]"
| "grid_passed (Call_DataTab_LIME (_, _, _, _, _, g) _) = [g]"
| "grid_passed (Call_PrintProperties (_, _, g) _) = [g]"
| "grid_passed (Call_scatter3D a _) = [plot_GRID a]"
| "grid_passed (Call_plane2D a _) = [plot_GRID a]"
| "grid_passed _ = []"

fun density_passed :: "'o event \<Rightarrow> 'o Struct list" where
  "density_passed (Call_temperature_Hamburgers (_, _, _, _, _, _, _, d, _) _) = [d]"
| "density_passed (Call_velocity (_, _, _, d, _) _) = [d]"
| "density_passed (Call_PrintProperties (d, _) _) = [d]"
| "density_passed _ = []"

fun temperature_passed :: "'o event \<Rightarrow> 'o temperature list" where
  "temperature_passed (Call_PrintProperties (_, t, _) _) = [t]"
| "temperature_passed _ = []"

fun field_passed :: "'o event \<Rightarrow> field list" where
  "field_passed (Call_DataTab_LIME (d, t, _) _) = [d, t]"
| "field_passed (Call_scatter3D a _) = [plot_data a, colordim a]"
| "field_passed (Call_plane2D a _) = [plot_data a]"
| "field_passed _ = []"

fun array_passed :: "'o event \<Rightarrow> ('o \<times> 'o \<times> 'o) list" where
  \<comment> \<open>velocity, abundance, gas-to-dust ratio\<close>
  "array_passed (Call_DataTab_LIME (_, _, v, ab, gtd, _) _) = [(v, ab, gtd)]"
| "array_passed _ = []"

definition across :: "('o event \<Rightarrow> 'a list) \<Rightarrow> 'o event list \<Rightarrow> 'a list" where
  "across f evs = concat (map f evs)"

subsection \<open>Statements about every run\<close>

definition run_sat :: "('w, 'o, 'a) prog \<Rightarrow> (exn + 'a \<Rightarrow> 'o event list \<Rightarrow> bool) \<Rightarrow> bool" where
  \<comment> \<open>Whatever the library does, the result and the calls added to the log satisfy \<open>P\<close>.\<close>
  "run_sat m P \<longleftrightarrow>
     (\<forall>s r s'. m s = (r, s') \<longrightarrow> (\<exists>evs. trace s' = trace s @ evs \<and> P r evs))"

definition oblivious :: "('w, 'o, 'a) prog \<Rightarrow> bool" where
  \<comment> \<open>Result, world and log do not depend on the command line or the environment.\<close>
  "oblivious m \<longleftrightarrow>
     (\<forall>s t. world s = world t \<and> trace s = trace t \<longrightarrow>
        fst (m s) = fst (m t) \<and> world (snd (m s)) = world (snd (m t))
        \<and> trace (snd (m s)) = trace (snd (m t)))"

definition normal :: "('w, 'a) libfun \<Rightarrow> bool" where
  "normal f \<longleftrightarrow> (\<forall>w. \<not> isl (fst (f w)))"

definition returns_normally :: "('w, 'o) library \<Rightarrow> bool" where
  \<comment> \<open>Every call into the library returns a value.\<close>
  "returns_normally L \<longleftrightarrow>
     normal (time_time L) \<and> (\<forall>a. normal (print L a)) \<and> (\<forall>a. normal (Model_grid L a))
     \<and> (\<forall>a. normal (Res_Rho0 L a)) \<and> (\<forall>a. normal (Model_density_Env_Disc L a))
     \<and> (\<forall>a. normal (Model_density_Hamburgers L a))
     \<and> (\<forall>a. normal (Model_temperature_Hamburgers L a)) \<and> (\<forall>a. normal (Model_velocity L a))
     \<and> (\<forall>a. normal (Model_abundance L a)) \<and> (\<forall>a. normal (Model_gastodust L a))
     \<and> (\<forall>a. normal (Model_DataTab_LIME L a)) \<and> (\<forall>a. normal (Model_PrintProperties L a))
     \<and> (\<forall>a. normal (Plot_model_scatter3D L a)) \<and> (\<forall>a. normal (Plot_model_plane2D L a))"

section \<open>A sample library\<close>

definition solar_units :: units where
  "solar_units =
     \<lparr>MSun = 1.9891 * 10 ^ 30, MSun_yr = 6.303 * 10 ^ 22, RSun = 6.957 * 10 ^ 8,
      LSun = 3.828 * 10 ^ 26, TSun = 5772, AU = 1.496 * 10 ^ 11\<rparr>"

definition sample_library :: "(nat, string) library" where
  \<comment> \<open>The world is a clock that every reading advances; densities and temperature are
      constant over the grid.\<close>
  "sample_library =
     \<lparr>time_time = (\<lambda>w. (Inr (real w), Suc w)),
      print = (\<lambda>_ w. (Inr (), w)),
      Model_grid = (\<lambda>a w. (Inr \<lparr>NPoints = prod_list (snd a), grid_rest = ''grid''\<rparr>, w)),
      Res_Rho0 = (\<lambda>_ w. (Inr 1, w)),
      Model_density_Env_Disc = (\<lambda>_ w.
        (Inr \<lparr>env_total = (\<lambda>_. 1), env_r_env = ''r_env'', env_streamline = ''streamline''\<rparr>, w)),
      Model_density_Hamburgers = (\<lambda>_ w.
        (Inr \<lparr>disc_total = (\<lambda>_. 2), disc_H = ''H'', disc_Rt = ''Rt'', disc_r_disc = ''r_disc''\<rparr>, w)),
      Model_temperature_Hamburgers = (\<lambda>_ w.
        (Inr \<lparr>temp_total = (\<lambda>_. 100), temp_rest = ''temperature''\<rparr>, w)),
      Model_velocity = (\<lambda>_ w. (Inr ''vel'', w)),
      Model_abundance = (\<lambda>_ w. (Inr ''abundance'', w)),
      Model_gastodust = (\<lambda>_ w. (Inr ''gtdratio'', w)),
      Model_DataTab_LIME = (\<lambda>_ w. (Inr (), w)),
      Model_PrintProperties = (\<lambda>_ w. (Inr (), w)),
      Plot_model_scatter3D = (\<lambda>_ w. (Inr (), w)),
      Plot_model_plane2D = (\<lambda>_ w. (Inr (), w))\<rparr>"

definition grid_fails :: "(nat, string) library" where
  \<comment> \<open>The sample library with a grid constructor that raises.\<close>
  "grid_fails = sample_library\<lparr>Model_grid := (\<lambda>_ w. (Inl (Raised ''MemoryError''), w))\<rparr>"

definition denser_envelope :: "(nat, string) library" where
  \<comment> \<open>The sample library with another envelope density.\<close>
  "denser_envelope = sample_library\<lparr>Model_density_Env_Disc := (\<lambda>_ w.
     (Inr \<lparr>env_total = (\<lambda>_. 5), env_r_env = ''r_env'', env_streamline = ''streamline''\<rparr>, w))\<rparr>"

definition zero_units :: units where
  \<comment> \<open>Unit constants with a zero solar mass, on which line 24 divides by zero.\<close>
  "zero_units = solar_units\<lparr>MSun := 0\<rparr>"

section \<open>Properties\<close>

lemma general_parameters_Inr:
  assumes "general_parameters U = Inr p"
  shows "MSun U \<noteq> 0" and "RSun U \<noteq> 0" and "LSun U \<noteq> 0"
    and "MStar p = 0.86 * MSun U"
    and "RStar p = RSun U * (0.86 * MSun U / MSun U) powr 0.8"
    and "LStar p = LSun U * (0.86 * MSun U / MSun U) ^ 4"
    and "TStar p = TSun U * ((LStar p / LSun U) / (RStar p / RSun U) ^ 2) powr 0.25"
  using assms
  by (auto simp: general_parameters_def and_then_def Let_def truediv_def
           split: if_splits)

lemma general_parameters_total:
  assumes "MSun U \<noteq> 0" and "RSun U \<noteq> 0" and "LSun U \<noteq> 0"
  shows "\<exists>p. general_parameters U = Inr p"
  using assms by (simp add: general_parameters_def and_then_def Let_def truediv_def)

lemma general_parameters_Inl:
  assumes "general_parameters U = Inl x"
  shows "x = ZeroDivisionError" and "MSun U = 0 \<or> RSun U = 0 \<or> LSun U = 0"
  using assms
  by (auto simp: general_parameters_def and_then_def Let_def truediv_def split: if_splits)

lemma header_items_Inr:
  assumes "general_parameters U = Inr p"
  shows "\<exists>xs. header_items U p = Inr xs"
  using general_parameters_Inr(2,3) [OF assms]
  by (simp add: header_items_def and_then_def truediv_def)

lemma real_power_quotient:
  fixes x :: real
  assumes "0 < x"
  shows "(x ^ 4 / (x powr 0.8) ^ 2) powr 0.25 = x powr 0.6"
proof -
  have four: "x ^ 4 = x powr 4"
    using assms by (simp add: powr_numeral)
  have square: "(x powr 0.8) ^ 2 = x powr 1.6"
    using assms by (simp add: power2_eq_square flip: powr_add)
  have "x powr 4 / x powr 1.6 = x powr 2.4"
    using powr_diff [of x 4 "1.6"] by simp
  then have "(x ^ 4 / (x powr 0.8) ^ 2) powr 0.25 = (x powr 2.4) powr 0.25"
    unfolding four square by simp
  also have "\<dots> = x powr 0.6"
    by (simp add: powr_powr)
  finally show ?thesis .
qed

subsection \<open>Rules for the statements about every run\<close>

lemma run_sat_call:
  assumes "\<And>e w w'. f a w = (Inl e, w') \<Longrightarrow> P (Inl e) [ev a (Inl e)]"
    and "\<And>b w w'. f a w = (Inr b, w') \<Longrightarrow> P (Inr b) [ev a (Inr b)]"
  shows "run_sat (call ev f a) P"
  unfolding run_sat_def
proof (intro allI impI)
  fix s r s'
  assume run: "call ev f a s = (r, s')"
  obtain w1 where f: "f a (world s) = (r, w1)" and s': "trace s' = trace s @ [ev a r]"
    using run by (auto simp: call_def split: prod.splits)
  have "P r [ev a r]"
    using assms(1) [of "world s" _ w1] assms(2) [of "world s" _ w1] f by (cases r) auto
  with s' show "\<exists>evs. trace s' = trace s @ evs \<and> P r evs"
    by blast
qed

lemma run_sat_seq_call:
  assumes "\<And>e w w'. f a w = (Inl e, w') \<Longrightarrow> P (Inl e) [ev a (Inl e)]"
    and "\<And>b w w'. f a w = (Inr b, w') \<Longrightarrow> run_sat (k b) (\<lambda>r evs. P r (ev a (Inr b) # evs))"
  shows "run_sat (seq (call ev f a) k) P"
  unfolding run_sat_def
proof (intro allI impI)
  fix s r s'
  assume run: "seq (call ev f a) k s = (r, s')"
  obtain r1 w1 where f: "f a (world s) = (r1, w1)"
    by (cases "f a (world s)")
  define s1 where "s1 = s\<lparr>world := w1, trace := trace s @ [ev a r1]\<rparr>"
  have c: "call ev f a s = (r1, s1)"
    by (simp add: call_def f s1_def)
  show "\<exists>evs. trace s' = trace s @ evs \<and> P r evs"
  proof (cases r1)
    case (Inl e)
    with run c have "r = Inl e" and "s' = s1"
      by (simp_all add: seq_def)
    with assms(1) [of "world s" e w1] f Inl show ?thesis
      by (simp add: s1_def)
  next
    case (Inr b)
    with run c have "k b s1 = (r, s')"
      by (simp add: seq_def)
    with assms(2) [of "world s" b w1] f Inr
    obtain evs where "trace s' = trace s1 @ evs" and "P r (ev a (Inr b) # evs)"
      unfolding run_sat_def by blast
    then show ?thesis
      using Inr by (simp add: s1_def)
  qed
qed

lemma run_sat_seq_evaluate:
  assumes "\<And>x. e = Inl x \<Longrightarrow> P (Inl x) []"
    and "\<And>b. e = Inr b \<Longrightarrow> run_sat (k b) P"
  shows "run_sat (seq (evaluate e) k) P"
  using assms by (cases e) (auto simp: run_sat_def seq_def evaluate_def)

lemmas run_sat_rules = run_sat_seq_call run_sat_seq_evaluate run_sat_call

lemma run_sat_run:
  assumes "run_sat (ExecModel_Burger U L) P"
  shows "P (run_result U L av en w) (run_log U L av en w)"
proof -
  obtain r s' where rs: "ExecModel_Burger U L (initial av en w) = (r, s')"
    by (cases "ExecModel_Burger U L (initial av en w)")
  with assms obtain evs where "trace s' = trace (initial av en w) @ evs" and "P r evs"
    unfolding run_sat_def by blast
  then have "P r (trace s')"
    by (simp add: initial_def)
  then show ?thesis
    by (simp add: run_result_def run_log_def run_def rs)
qed

lemma calls_of_run:
  "run_sat (ExecModel_Burger U L) (\<lambda>r evs.
     prefix (map fn_of evs) calls_in_order
     \<and> prefix (pipeline evs) stages_in_order
     \<and> (\<forall>x. r = Inr x \<longrightarrow> map fn_of evs = calls_in_order \<and> pipeline evs = stages_in_order))"
  unfolding ExecModel_Burger_def Let_def calls_in_order_def stages_in_order_def pipeline_def
  by (intro run_sat_rules; simp add: List.map_filter_simps)

lemma images_of_run:
  "run_sat (ExecModel_Burger U L) (\<lambda>r evs.
     prefix (images evs)
       [(F_scatter3D, ''3DpointsBurger.png''), (F_plane2D, ''DensMidplane_Burger.png''),
        (F_plane2D, ''DensVertical_Burger.png''), (F_plane2D, ''TempMidplane_Burger.png''),
        (F_plane2D, ''TempVertical_Burger.png''), (F_plane2D, ''Emissivity_Burger.png'')]
     \<and> (\<forall>x. r = Inr x \<longrightarrow> images evs =
       [(F_scatter3D, ''3DpointsBurger.png''), (F_plane2D, ''DensMidplane_Burger.png''),
        (F_plane2D, ''DensVertical_Burger.png''), (F_plane2D, ''TempMidplane_Burger.png''),
        (F_plane2D, ''TempVertical_Burger.png''), (F_plane2D, ''Emissivity_Burger.png'')]))"
  unfolding ExecModel_Burger_def Let_def images_def
  by (intro run_sat_rules;
      simp add: List.map_filter_simps scatter_args_def DensMidplane_args_def
        DensVertical_args_def TempMidplane_args_def TempVertical_args_def Emissivity_args_def
        tag_def)

lemma normal_Inl:
  assumes "normal f"
  shows "(f w = (Inl e, w')) = False"
  using assms [unfolded normal_def, rule_format, of w] by auto

lemma header_items_not_Inl:
  assumes "general_parameters U = Inr p"
  shows "(header_items U p = Inl x) = False"
  using header_items_Inr [OF assms] by auto

lemma completes:
  assumes "returns_normally L" and "general_parameters U = Inr p"
  shows "run_sat (ExecModel_Burger U L) (\<lambda>r evs. r = Inr ())"
proof -
  from assms(1) have n:
    "normal (time_time L)" "\<And>a. normal (print L a)" "\<And>a. normal (Model_grid L a)"
    "\<And>a. normal (Res_Rho0 L a)" "\<And>a. normal (Model_density_Env_Disc L a)"
    "\<And>a. normal (Model_density_Hamburgers L a)"
    "\<And>a. normal (Model_temperature_Hamburgers L a)" "\<And>a. normal (Model_velocity L a)"
    "\<And>a. normal (Model_abundance L a)" "\<And>a. normal (Model_gastodust L a)"
    "\<And>a. normal (Model_DataTab_LIME L a)" "\<And>a. normal (Model_PrintProperties L a)"
    "\<And>a. normal (Plot_model_scatter3D L a)" "\<And>a. normal (Plot_model_plane2D L a)"
    unfolding returns_normally_def by blast+
  obtain xs where xs: "header_items U p = Inr xs"
    using header_items_Inr [OF assms(2)] by blast
  show ?thesis
    unfolding ExecModel_Burger_def Let_def
    by (intro run_sat_rules; simp add: normal_Inl n assms(2) header_items_not_Inl)
qed


lemmas run_eval = run_log_def run_result_def run_def ExecModel_Burger_def seq_def call_def
  evaluate_def initial_def general_parameters_def header_items_def and_then_def truediv_def

lemmas plot_args_defs = scatter_args_def DensMidplane_args_def DensVertical_args_def
  TempMidplane_args_def TempVertical_args_def Emissivity_args_def

lemma sample_returns_normally: "returns_normally sample_library"
  by (simp add: returns_normally_def normal_def sample_library_def)

lemma sample_completes: "run_result solar_units sample_library av en w = Inr ()"
proof -
  obtain p where "general_parameters solar_units = Inr p"
    using general_parameters_total [of solar_units] by (auto simp: solar_units_def)
  from run_sat_run [OF completes [OF sample_returns_normally this]] show ?thesis .
qed

lemma uncaught_nth:
  assumes "uncaught r evs" and "i < length evs" and "raised (evs ! i) = Some x"
  shows "Suc i = length evs \<and> r = Inl x"
  using assms
proof (induction r evs arbitrary: i rule: uncaught.induct)
  case (1 r)
  then show ?case by simp
next
  case (2 r ev)
  then show ?case by simp
next
  case (3 r ev v va)
  then show ?case by (cases i) auto
qed

lemma exports_of_run:
  "run_sat (ExecModel_Burger U L) (\<lambda>r evs.
     length (exports evs) \<le> 1
     \<and> (\<forall>x. r = Inr x \<longrightarrow> length (exports evs) = 1)
     \<and> (\<forall>g dE dD T v ab gtd.
          across grid_made evs = [g] \<and> across env_made evs = [dE]
          \<and> across disc_made evs = [dD] \<and> across temperature_made evs = [T]
          \<and> across velocity_made evs = [v] \<and> across abundance_made evs = [ab]
          \<and> across gtdratio_made evs = [gtd]
          \<longrightarrow> exports evs = [(total (composite_density dE dD), temp_total T, v, ab, gtd, g)])
     \<and> (\<forall>a\<in>set (exports evs). \<exists>g dE dD T v ab gtd.
          across grid_made evs = [g] \<and> across env_made evs = [dE]
          \<and> across disc_made evs = [dD] \<and> across temperature_made evs = [T]
          \<and> across velocity_made evs = [v] \<and> across abundance_made evs = [ab]
          \<and> across gtdratio_made evs = [gtd]
          \<and> a = (total (composite_density dE dD), temp_total T, v, ab, gtd, g)))"
  unfolding ExecModel_Burger_def Let_def exports_def across_def
  by (intro run_sat_rules; simp add: List.map_filter_simps returned_def)

lemma propagation_of_run:
  "run_sat (ExecModel_Burger U L) (\<lambda>r evs.
     uncaught r evs
     \<and> (\<forall>x. r = Inl x \<longrightarrow>
          general_parameters U = Inl x \<or> (evs \<noteq> [] \<and> raised (last evs) = Some x))
     \<and> (\<forall>x. general_parameters U = Inl x \<longrightarrow> all_returned evs
          \<longrightarrow> r = Inl x \<and> map fn_of evs = [F_time]))"
  unfolding ExecModel_Burger_def Let_def all_returned_def
  by (intro run_sat_rules; simp add: exception_of_def header_items_not_Inl)

lemma objects_of_run:
  "run_sat (ExecModel_Burger U L) (\<lambda>r evs.
     length (across grid_made evs) \<le> 1 \<and> length (across env_made evs) \<le> 1
     \<and> length (across disc_made evs) \<le> 1 \<and> length (across temperature_made evs) \<le> 1
     \<and> length (across velocity_made evs) \<le> 1 \<and> length (across abundance_made evs) \<le> 1
     \<and> length (across gtdratio_made evs) \<le> 1
     \<and> (\<forall>x. r = Inr x \<longrightarrow>
          length (across grid_made evs) = 1 \<and> length (across env_made evs) = 1
          \<and> length (across disc_made evs) = 1 \<and> length (across temperature_made evs) = 1
          \<and> length (across velocity_made evs) = 1 \<and> length (across abundance_made evs) = 1
          \<and> length (across gtdratio_made evs) = 1)
     \<and> (\<forall>g\<in>set (across grid_passed evs). across grid_made evs = [g])
     \<and> (\<forall>d\<in>set (across density_passed evs). \<exists>dE dD.
          across env_made evs = [dE] \<and> across disc_made evs = [dD]
          \<and> d = composite_density dE dD)
     \<and> (\<forall>t\<in>set (across temperature_passed evs). across temperature_made evs = [t])
     \<and> (\<forall>a\<in>set (across array_passed evs). \<exists>v ab gtd.
          across velocity_made evs = [v] \<and> across abundance_made evs = [ab]
          \<and> across gtdratio_made evs = [gtd] \<and> a = (v, ab, gtd))
     \<and> (\<forall>f\<in>set (across field_passed evs). \<exists>dE dD T.
          across env_made evs = [dE] \<and> across disc_made evs = [dD]
          \<and> across temperature_made evs = [T]
          \<and> (f = total (composite_density dE dD) \<or> f = temp_total T
              \<or> f = dens_plot (composite_density dE dD)
              \<or> f = field_mul (temp_total T) (dens_plot (composite_density dE dD)))))"
  unfolding ExecModel_Burger_def Let_def across_def
  by (intro run_sat_rules;
      simp add: returned_def plot_args_defs Env_Disc_args_def Hamburgers_args_def
        temperature_args_def)

lemma final_call_of_run:
  assumes "general_parameters U = Inr p"
  shows "run_sat (ExecModel_Burger U L) (\<lambda>r evs. all_returned evs \<longrightarrow>
     r = Inr () \<and> map fn_of evs = calls_in_order
     \<and> image_file (last evs) = Some (F_plane2D, ''Emissivity_Burger.png''))"
  unfolding ExecModel_Burger_def Let_def calls_in_order_def all_returned_def
  by (intro run_sat_rules;
      simp add: exception_of_def assms header_items_not_Inl Emissivity_args_def tag_def)

lemma log_of_run:
  "run_sat (ExecModel_Burger U L) (\<lambda>r evs. \<forall>x. r = Inr x \<longrightarrow>
     (\<exists>p items t0 GRID Rho0 densEnv densDisc temperature vel abundance gtdratio t1.
        general_parameters U = Inr p \<and> header_items U p = Inr items
        \<and> evs =
          (let density = composite_density densEnv densDisc in
           [Call_time (Inr t0),
            Call_print items (Inr ()),
            Call_grid (grid_args U) (Inr GRID),
            Call_Rho0 (MRate p, Rd p, MStar p) (Inr Rho0),
            Call_density_Env_Disc (Env_Disc_args p Rho0 GRID) (Inr densEnv),
            Call_density_Hamburgers (Hamburgers_args p Rho0 GRID) (Inr densDisc),
            Call_temperature_Hamburgers (temperature_args p density GRID) (Inr temperature),
            Call_velocity (RStar p, MStar p, Rd p, density, GRID) (Inr vel),
            Call_abundance (5 / 10 ^ 8, NPoints GRID) (Inr abundance),
            Call_gastodust (100, NPoints GRID) (Inr gtdratio),
            Call_DataTab_LIME
              (total density, temp_total temperature, vel, abundance, gtdratio, GRID) (Inr ()),
            Call_PrintProperties (density, temperature, GRID) (Inr ()),
            Call_time (Inr t1),
            Call_print [Fmt ''Ellapsed time: %.3fs'' (t1 - t0)] (Inr ()),
            Call_print [Str rule_lines] (Inr ()),
            Call_scatter3D (scatter_args U GRID density temperature) (Inr ()),
            Call_plane2D (DensMidplane_args U GRID density) (Inr ()),
            Call_plane2D (DensVertical_args U GRID density) (Inr ()),
            Call_plane2D (TempMidplane_args U GRID temperature) (Inr ()),
            Call_plane2D (TempVertical_args U GRID temperature) (Inr ()),
            Call_plane2D (Emissivity_args U GRID density temperature) (Inr ())])))"
  unfolding ExecModel_Burger_def Let_def
  by (intro run_sat_rules; simp)

lemma oblivious_call: "oblivious (call ev f a)"
  by (simp add: oblivious_def call_def split: prod.splits)

lemma oblivious_evaluate: "oblivious (evaluate e)"
  by (simp add: oblivious_def evaluate_def)

lemma oblivious_seq:
  assumes "oblivious m" and "\<And>a. oblivious (k a)"
  shows "oblivious (seq m k)"
  unfolding oblivious_def
proof (intro allI impI)
  fix s t :: "('a, 'b) state"
  assume st: "world s = world t \<and> trace s = trace t"
  obtain r s1 where ms: "m s = (r, s1)" by (cases "m s")
  obtain r' t1 where mt: "m t = (r', t1)" by (cases "m t")
  from assms(1) st ms mt have "r' = r" and eq: "world s1 = world t1" "trace s1 = trace t1"
    unfolding oblivious_def by fastforce+
  with mt have mt: "m t = (r, t1)"
    by simp
  show "fst (seq m k s) = fst (seq m k t) \<and> world (snd (seq m k s)) = world (snd (seq m k t))
      \<and> trace (snd (seq m k s)) = trace (snd (seq m k t))"
  proof (cases r)
    case (Inl e)
    then show ?thesis
      using eq by (simp add: seq_def ms mt)
  next
    case (Inr b)
    with assms(2) [of b] eq have "fst (k b s1) = fst (k b t1)
        \<and> world (snd (k b s1)) = world (snd (k b t1))
        \<and> trace (snd (k b s1)) = trace (snd (k b t1))"
      unfolding oblivious_def by blast
    then show ?thesis
      using Inr by (simp add: seq_def ms mt)
  qed
qed

lemma oblivious_script: "oblivious (ExecModel_Burger U L)"
  unfolding ExecModel_Burger_def Let_def
  by (intro oblivious_seq oblivious_call oblivious_evaluate)

subsection \<open>The composite density\<close>

text \<open>
  C9. At every grid point \<open>i\<close> the \<open>total\<close> of the composite density is the sum of the
  envelope's total and the disc's total there; its \<open>disc\<close> is the disc's total, its
  \<open>env\<close> the envelope's total, and both of its flags are \<open>True\<close>.
\<close>

theorem composite_density_fields:
  "total (composite_density densEnv densDisc) i = env_total densEnv i + disc_total densDisc i
   \<and> disc (composite_density densEnv densDisc) = disc_total densDisc
   \<and> env (composite_density densEnv densDisc) = env_total densEnv
   \<and> discFlag (composite_density densEnv densDisc)
   \<and> envFlag (composite_density densEnv densDisc)"
  by (simp add: composite_density_def field_add_def)

subsection \<open>The stellar parameters\<close>

text \<open>
  C10. Whenever the general parameters are computed without a division by zero, they
  obey the scaling relations over the reals: \<open>RStar/RSun = (MStar/MSun)^0.8\<close>,
  \<open>LStar/LSun = (MStar/MSun)^4\<close>, and
  \<open>TStar = TSun * ((LStar/LSun) / (RStar/RSun)^2)^0.25 = TSun * (MStar/MSun)^0.6\<close>.
\<close>

theorem stellar_scaling_relations:
  assumes "general_parameters U = Inr p"
  shows "RStar p / RSun U = (MStar p / MSun U) powr 0.8
       \<and> LStar p / LSun U = (MStar p / MSun U) ^ 4
       \<and> TStar p = TSun U * ((LStar p / LSun U) / (RStar p / RSun U) ^ 2) powr 0.25
       \<and> TStar p = TSun U * (MStar p / MSun U) powr 0.6"
proof -
  note g = general_parameters_Inr [OF assms]
  have ratio: "0.86 * MSun U / MSun U = 0.86"
    using g(1) by simp
  have m: "MStar p / MSun U = 0.86"
    using g(1) g(4) by simp
  have r: "RStar p / RSun U = (MStar p / MSun U) powr 0.8"
    unfolding m g(5) ratio using g(2) by simp
  have l: "LStar p / LSun U = (MStar p / MSun U) ^ 4"
    unfolding m g(6) ratio using g(3) by simp
  have "((LStar p / LSun U) / (RStar p / RSun U) ^ 2) powr 0.25 = (MStar p / MSun U) powr 0.6"
    unfolding r l m using real_power_quotient [of "0.86"] by simp
  with r l g(7) show ?thesis by simp
qed

theorem stellar_scaling_relations_witness:
  "\<exists>p. general_parameters solar_units = Inr p
     \<and> RStar p / RSun solar_units = (MStar p / MSun solar_units) powr 0.8
     \<and> LStar p / LSun solar_units = (MStar p / MSun solar_units) ^ 4
     \<and> TStar p = TSun solar_units * (MStar p / MSun solar_units) powr 0.6"
proof -
  obtain p where p: "general_parameters solar_units = Inr p"
    using general_parameters_total [of solar_units] by (auto simp: solar_units_def)
  from stellar_scaling_relations [OF p] p show ?thesis by blast
qed

subsection \<open>Image files\<close>

text \<open>
  C1, as amended. The images a run asks for are, in this order, one 3D scatter plot and
  five 2D plane plots (two of the density, two of the temperature, one of the
  emissivity), each under a fixed name; a run that an exception cuts short has asked for
  an initial part of them, and a run that ends normally for exactly these six. No other
  call names an image file.
\<close>

theorem image_files_of_run:
  "prefix (images (run_log U L av en w))
     [(F_scatter3D, ''3DpointsBurger.png''), (F_plane2D, ''DensMidplane_Burger.png''),
      (F_plane2D, ''DensVertical_Burger.png''), (F_plane2D, ''TempMidplane_Burger.png''),
      (F_plane2D, ''TempVertical_Burger.png''), (F_plane2D, ''Emissivity_Burger.png'')]
   \<and> (run_result U L av en w = Inr () \<longrightarrow>
        scatter_files (run_log U L av en w) = [''3DpointsBurger.png'']
        \<and> plane_files (run_log U L av en w) =
            [''DensMidplane_Burger.png'', ''DensVertical_Burger.png'',
             ''TempMidplane_Burger.png'', ''TempVertical_Burger.png'',
             ''Emissivity_Burger.png''])"
  using run_sat_run [OF images_of_run, of U L av en w]
  by (auto simp: scatter_files_def plane_files_def)

theorem image_files_of_run_witness:
  "run_result solar_units sample_library [] [] 0 = Inr ()
   \<and> scatter_files (run_log solar_units sample_library [] [] 0) = [''3DpointsBurger.png'']
   \<and> plane_files (run_log solar_units sample_library [] [] 0) =
       [''DensMidplane_Burger.png'', ''DensVertical_Burger.png'',
        ''TempMidplane_Burger.png'', ''TempVertical_Burger.png'',
        ''Emissivity_Burger.png'']"
  using image_files_of_run [of solar_units sample_library "[]" "[]" 0] sample_completes
  by simp

theorem four_plane_plots_counterexample:
  "\<not> (length (scatter_files (run_log solar_units sample_library [] [] 0)) = 1
      \<and> length (plane_files (run_log solar_units sample_library [] [] 0)) = 4)"
  using run_sat_run [OF images_of_run, of solar_units sample_library "[]" "[]" 0]
    sample_completes [of "[]" "[]" 0]
  by (simp add: plane_files_def)

subsection \<open>The order of the calls\<close>

text \<open>
  C2, as amended. In every run the calls are made in the order of the script, each call
  site at most once, so the stages come in the fixed order: grid creation, envelope
  density, disc density, temperature, velocity, abundance, gas-to-dust ratio, file export,
  property printing, plotting. A run that an exception cuts short has gone through an
  initial part of this order; a run that ends normally has made every call, and gone
  through every stage, exactly once.
\<close>

theorem calls_and_stages_in_order:
  "prefix (map fn_of (run_log U L av en w)) calls_in_order
   \<and> prefix (pipeline (run_log U L av en w)) stages_in_order
   \<and> (run_result U L av en w = Inr () \<longrightarrow>
        map fn_of (run_log U L av en w) = calls_in_order
        \<and> pipeline (run_log U L av en w) = stages_in_order)"
  using run_sat_run [OF calls_of_run, of U L av en w] by simp

theorem calls_and_stages_in_order_witness:
  "run_result solar_units sample_library [] [] 0 = Inr ()
   \<and> map fn_of (run_log solar_units sample_library [] [] 0) = calls_in_order
   \<and> pipeline (run_log solar_units sample_library [] [] 0) = stages_in_order"
  using calls_and_stages_in_order [of solar_units sample_library "[]" "[]" 0] sample_completes
  by simp

theorem all_stages_in_every_run_counterexample:
  "run_result solar_units grid_fails [] [] 0 = Inl (Raised ''MemoryError'')
   \<and> pipeline (run_log solar_units grid_fails [] [] 0) = [Grid_creation]
   \<and> pipeline (run_log solar_units grid_fails [] [] 0) \<noteq> stages_in_order"
  by (simp add: run_eval grid_fails_def sample_library_def solar_units_def pipeline_def
        stages_in_order_def List.map_filter_simps)

subsection \<open>The export\<close>

text \<open>
  C3. The export \<open>Model.DataTab_LIME\<close> is called at most once in any run. In a run that
  has produced the grid, the envelope and disc densities, the temperature, the velocity,
  the abundance and the gas-to-dust ratio, it is called exactly once, and its arguments
  are the total of the composite of the two densities, the total of the temperature, the
  velocity, the abundance, the gas-to-dust ratio and the grid that the run has produced.
  It is never called with other arguments, and a run that ends normally has called it.
\<close>

theorem export_called_once:
  "length (exports (run_log U L av en w)) \<le> 1
   \<and> (\<forall>g dE dD T v ab gtd.
        across grid_made (run_log U L av en w) = [g]
        \<and> across env_made (run_log U L av en w) = [dE]
        \<and> across disc_made (run_log U L av en w) = [dD]
        \<and> across temperature_made (run_log U L av en w) = [T]
        \<and> across velocity_made (run_log U L av en w) = [v]
        \<and> across abundance_made (run_log U L av en w) = [ab]
        \<and> across gtdratio_made (run_log U L av en w) = [gtd]
        \<longrightarrow> exports (run_log U L av en w) =
              [(total (composite_density dE dD), temp_total T, v, ab, gtd, g)])
   \<and> (\<forall>a\<in>set (exports (run_log U L av en w)). \<exists>g dE dD T v ab gtd.
        across grid_made (run_log U L av en w) = [g]
        \<and> across env_made (run_log U L av en w) = [dE]
        \<and> across disc_made (run_log U L av en w) = [dD]
        \<and> across temperature_made (run_log U L av en w) = [T]
        \<and> across velocity_made (run_log U L av en w) = [v]
        \<and> across abundance_made (run_log U L av en w) = [ab]
        \<and> across gtdratio_made (run_log U L av en w) = [gtd]
        \<and> a = (total (composite_density dE dD), temp_total T, v, ab, gtd, g))
   \<and> (run_result U L av en w = Inr () \<longrightarrow> length (exports (run_log U L av en w)) = 1)"
  using run_sat_run [OF exports_of_run, of U L av en w] by simp

theorem export_called_once_witness:
  "across grid_made (run_log solar_units sample_library [] [] 0)
     = [\<lparr>NPoints = 8000000, grid_rest = ''grid''\<rparr>]
   \<and> across env_made (run_log solar_units sample_library [] [] 0)
     = [\<lparr>env_total = (\<lambda>_. 1), env_r_env = ''r_env'', env_streamline = ''streamline''\<rparr>]
   \<and> across disc_made (run_log solar_units sample_library [] [] 0)
     = [\<lparr>disc_total = (\<lambda>_. 2), disc_H = ''H'', disc_Rt = ''Rt'', disc_r_disc = ''r_disc''\<rparr>]
   \<and> across temperature_made (run_log solar_units sample_library [] [] 0)
     = [\<lparr>temp_total = (\<lambda>_. 100), temp_rest = ''temperature''\<rparr>]
   \<and> across velocity_made (run_log solar_units sample_library [] [] 0) = [''vel'']
   \<and> across abundance_made (run_log solar_units sample_library [] [] 0) = [''abundance'']
   \<and> across gtdratio_made (run_log solar_units sample_library [] [] 0) = [''gtdratio'']
   \<and> exports (run_log solar_units sample_library [] [] 0) =
       [(total (composite_density
           \<lparr>env_total = (\<lambda>_. 1), env_r_env = ''r_env'', env_streamline = ''streamline''\<rparr>
           \<lparr>disc_total = (\<lambda>_. 2), disc_H = ''H'', disc_Rt = ''Rt'', disc_r_disc = ''r_disc''\<rparr>),
         (\<lambda>_. 100), ''vel'', ''abundance'', ''gtdratio'',
         \<lparr>NPoints = 8000000, grid_rest = ''grid''\<rparr>)]
   \<and> run_result solar_units sample_library [] [] 0 = Inr ()
   \<and> length (exports (run_log solar_units sample_library [] [] 0)) = 1"
proof -
  let ?log = "run_log solar_units sample_library [] [] 0"
  have made:
    "across grid_made ?log = [\<lparr>NPoints = 8000000, grid_rest = ''grid''\<rparr>]"
    "across env_made ?log
       = [\<lparr>env_total = (\<lambda>_. 1), env_r_env = ''r_env'', env_streamline = ''streamline''\<rparr>]"
    "across disc_made ?log
       = [\<lparr>disc_total = (\<lambda>_. 2), disc_H = ''H'', disc_Rt = ''Rt'', disc_r_disc = ''r_disc''\<rparr>]"
    "across temperature_made ?log = [\<lparr>temp_total = (\<lambda>_. 100), temp_rest = ''temperature''\<rparr>]"
    "across velocity_made ?log = [''vel'']"
    "across abundance_made ?log = [''abundance'']"
    "across gtdratio_made ?log = [''gtdratio'']"
    by (simp_all add: run_eval sample_library_def solar_units_def Let_def across_def
          returned_def grid_args_def)
  note inst = export_called_once [of solar_units sample_library "[]" "[]" 0]
  have ok: "run_result solar_units sample_library [] [] 0 = Inr ()"
    by (rule sample_completes)
  with inst have one: "length (exports ?log) = 1"
    by simp
  from inst made have "exports ?log =
       [(total (composite_density
           \<lparr>env_total = (\<lambda>_. 1), env_r_env = ''r_env'', env_streamline = ''streamline''\<rparr>
           \<lparr>disc_total = (\<lambda>_. 2), disc_H = ''H'', disc_Rt = ''Rt'', disc_r_disc = ''r_disc''\<rparr>),
         temp_total \<lparr>temp_total = (\<lambda>_. 100), temp_rest = ''temperature''\<rparr>,
         ''vel'', ''abundance'', ''gtdratio'', \<lparr>NPoints = 8000000, grid_rest = ''grid''\<rparr>)]"
    by blast
  with made ok one show ?thesis
    by simp
qed

subsection \<open>The arguments of the calls\<close>

text \<open>
  C4, as amended. The arguments that the script passes are fixed literals, constants of
  the library, values returned by earlier calls, and values that the script computes
  from these: the general parameters, the composite density, the density scaled for
  plotting, the emissivity, the sizes and the bounds of the colour norms. In a run that
  ends normally the log is the list below, for the values that the calls returned.
\<close>

theorem arguments_of_calls:
  assumes "run_result U L av en w = Inr ()"
  shows "\<exists>p items t0 GRID Rho0 densEnv densDisc temperature vel abundance gtdratio t1.
     general_parameters U = Inr p \<and> header_items U p = Inr items
     \<and> run_log U L av en w =
       (let density = composite_density densEnv densDisc in
        [Call_time (Inr t0),
         Call_print items (Inr ()),
         Call_grid (grid_args U) (Inr GRID),
         Call_Rho0 (MRate p, Rd p, MStar p) (Inr Rho0),
         Call_density_Env_Disc (Env_Disc_args p Rho0 GRID) (Inr densEnv),
         Call_density_Hamburgers (Hamburgers_args p Rho0 GRID) (Inr densDisc),
         Call_temperature_Hamburgers (temperature_args p density GRID) (Inr temperature),
         Call_velocity (RStar p, MStar p, Rd p, density, GRID) (Inr vel),
         Call_abundance (5 / 10 ^ 8, NPoints GRID) (Inr abundance),
         Call_gastodust (100, NPoints GRID) (Inr gtdratio),
         Call_DataTab_LIME
           (total density, temp_total temperature, vel, abundance, gtdratio, GRID) (Inr ()),
         Call_PrintProperties (density, temperature, GRID) (Inr ()),
         Call_time (Inr t1),
         Call_print [Fmt ''Ellapsed time: %.3fs'' (t1 - t0)] (Inr ()),
         Call_print [Str rule_lines] (Inr ()),
         Call_scatter3D (scatter_args U GRID density temperature) (Inr ()),
         Call_plane2D (DensMidplane_args U GRID density) (Inr ()),
         Call_plane2D (DensVertical_args U GRID density) (Inr ()),
         Call_plane2D (TempMidplane_args U GRID temperature) (Inr ()),
         Call_plane2D (TempVertical_args U GRID temperature) (Inr ()),
         Call_plane2D (Emissivity_args U GRID density temperature) (Inr ())])"
  using run_sat_run [OF log_of_run, of U L av en w] assms by simp

theorem arguments_of_calls_witness:
  "run_result solar_units sample_library [] [] 0 = Inr ()
   \<and> (\<exists>p items t0 GRID Rho0 densEnv densDisc temperature vel abundance gtdratio t1.
     general_parameters solar_units = Inr p \<and> header_items solar_units p = Inr items
     \<and> run_log solar_units sample_library [] [] 0 =
       (let density = composite_density densEnv densDisc in
        [Call_time (Inr t0),
         Call_print items (Inr ()),
         Call_grid (grid_args solar_units) (Inr GRID),
         Call_Rho0 (MRate p, Rd p, MStar p) (Inr Rho0),
         Call_density_Env_Disc (Env_Disc_args p Rho0 GRID) (Inr densEnv),
         Call_density_Hamburgers (Hamburgers_args p Rho0 GRID) (Inr densDisc),
         Call_temperature_Hamburgers (temperature_args p density GRID) (Inr temperature),
         Call_velocity (RStar p, MStar p, Rd p, density, GRID) (Inr vel),
         Call_abundance (5 / 10 ^ 8, NPoints GRID) (Inr abundance),
         Call_gastodust (100, NPoints GRID) (Inr gtdratio),
         Call_DataTab_LIME
           (total density, temp_total temperature, vel, abundance, gtdratio, GRID) (Inr ()),
         Call_PrintProperties (density, temperature, GRID) (Inr ()),
         Call_time (Inr t1),
         Call_print [Fmt ''Ellapsed time: %.3fs'' (t1 - t0)] (Inr ()),
         Call_print [Str rule_lines] (Inr ()),
         Call_scatter3D (scatter_args solar_units GRID density temperature) (Inr ()),
         Call_plane2D (DensMidplane_args solar_units GRID density) (Inr ()),
         Call_plane2D (DensVertical_args solar_units GRID density) (Inr ()),
         Call_plane2D (TempMidplane_args solar_units GRID temperature) (Inr ()),
         Call_plane2D (TempVertical_args solar_units GRID temperature) (Inr ()),
         Call_plane2D (Emissivity_args solar_units GRID density temperature) (Inr ())]))"
  using arguments_of_calls [OF sample_completes [of "[]" "[]" 0]] sample_completes [of "[]" "[]" 0]
  by blast

theorem literal_arguments_counterexample:
  "exported_density_at 0 (run_log solar_units sample_library [] [] 0) = [1 + 2]
   \<and> exported_density_at 0 (run_log solar_units denser_envelope [] [] 0) = [5 + 2]
   \<and> exported_density_at 0 (run_log solar_units sample_library [] [] 0)
       \<noteq> exported_density_at 0 (run_log solar_units denser_envelope [] [] 0)"
  by (simp add: run_eval sample_library_def denser_envelope_def solar_units_def Let_def
        exported_density_at_def exports_def List.map_filter_simps composite_density_def
        field_add_def)

subsection \<open>Exceptions\<close>

text \<open>
  C5. The script catches nothing. In every run, a call that raised is the last call of
  the run and its exception is the result of the run, unchanged; a run that ends with an
  exception ends with the one that the general parameters or its last call raised; and
  when the computation of the general parameters raises, after the first reading of the
  clock, the run ends there with that exception.
\<close>

theorem exceptions_propagate:
  "(\<forall>i x. i < length (run_log U L av en w) \<longrightarrow> raised (run_log U L av en w ! i) = Some x \<longrightarrow>
       Suc i = length (run_log U L av en w) \<and> run_result U L av en w = Inl x)
   \<and> (\<forall>x. run_result U L av en w = Inl x \<longrightarrow>
         general_parameters U = Inl x
         \<or> (run_log U L av en w \<noteq> [] \<and> raised (last (run_log U L av en w)) = Some x))
   \<and> (\<forall>x. general_parameters U = Inl x \<longrightarrow> all_returned (run_log U L av en w) \<longrightarrow>
         run_result U L av en w = Inl x \<and> map fn_of (run_log U L av en w) = [F_time])"
  using run_sat_run [OF propagation_of_run, of U L av en w] uncaught_nth
  by blast

theorem exceptions_propagate_witness:
  "length (run_log solar_units grid_fails [] [] 0) = 3
   \<and> raised (run_log solar_units grid_fails [] [] 0 ! 2) = Some (Raised ''MemoryError'')
   \<and> run_result solar_units grid_fails [] [] 0 = Inl (Raised ''MemoryError'')
   \<and> general_parameters zero_units = Inl ZeroDivisionError
   \<and> all_returned (run_log zero_units sample_library [] [] 0)
   \<and> run_result zero_units sample_library [] [] 0 = Inl ZeroDivisionError
   \<and> map fn_of (run_log zero_units sample_library [] [] 0) = [F_time]"
proof -
  let ?log = "run_log solar_units grid_fails [] [] 0"
  have raise: "2 < length ?log" "raised (?log ! 2) = Some (Raised ''MemoryError'')"
    by (simp_all add: run_eval grid_fails_def sample_library_def solar_units_def
          exception_of_def)
  have zero: "general_parameters zero_units = Inl ZeroDivisionError"
    "all_returned (run_log zero_units sample_library [] [] 0)"
    by (simp_all add: run_eval zero_units_def sample_library_def solar_units_def
          exception_of_def all_returned_def)
  from exceptions_propagate [of solar_units grid_fails "[]" "[]" 0] raise
  have "Suc 2 = length ?log \<and> run_result solar_units grid_fails [] [] 0 = Inl (Raised ''MemoryError'')"
    by blast
  moreover from exceptions_propagate [of zero_units sample_library "[]" "[]" 0] zero
  have "run_result zero_units sample_library [] [] 0 = Inl ZeroDivisionError
      \<and> map fn_of (run_log zero_units sample_library [] [] 0) = [F_time]"
    by blast
  ultimately show ?thesis
    using raise zero by simp
qed

subsection \<open>Objects are passed on as created\<close>

text \<open>
  C6. In every run each aggregate is created at most once, and exactly once when the run
  ends normally: the grid, the envelope and disc densities, the temperature, the
  velocity, the abundance and the gas-to-dust ratio. Every
  later use reads it as created: a grid passed to a call is the grid created; a composite
  density passed is the composite of the envelope and disc densities created; the
  temperature, the velocity, the abundance and the gas-to-dust ratio passed are the ones
  created; and a field passed to the export or to a plot is the total of the composite
  density, the total of the temperature, or what lines 118 and 159 compute from them.
\<close>

theorem objects_read_as_created:
  "length (across grid_made (run_log U L av en w)) \<le> 1
   \<and> length (across env_made (run_log U L av en w)) \<le> 1
   \<and> length (across disc_made (run_log U L av en w)) \<le> 1
   \<and> length (across temperature_made (run_log U L av en w)) \<le> 1
   \<and> length (across velocity_made (run_log U L av en w)) \<le> 1
   \<and> length (across abundance_made (run_log U L av en w)) \<le> 1
   \<and> length (across gtdratio_made (run_log U L av en w)) \<le> 1
   \<and> (run_result U L av en w = Inr () \<longrightarrow>
        length (across grid_made (run_log U L av en w)) = 1
        \<and> length (across env_made (run_log U L av en w)) = 1
        \<and> length (across disc_made (run_log U L av en w)) = 1
        \<and> length (across temperature_made (run_log U L av en w)) = 1
        \<and> length (across velocity_made (run_log U L av en w)) = 1
        \<and> length (across abundance_made (run_log U L av en w)) = 1
        \<and> length (across gtdratio_made (run_log U L av en w)) = 1)
   \<and> (\<forall>g\<in>set (across grid_passed (run_log U L av en w)).
        across grid_made (run_log U L av en w) = [g])
   \<and> (\<forall>d\<in>set (across density_passed (run_log U L av en w)). \<exists>dE dD.
        across env_made (run_log U L av en w) = [dE]
        \<and> across disc_made (run_log U L av en w) = [dD]
        \<and> d = composite_density dE dD)
   \<and> (\<forall>t\<in>set (across temperature_passed (run_log U L av en w)).
        across temperature_made (run_log U L av en w) = [t])
   \<and> (\<forall>a\<in>set (across array_passed (run_log U L av en w)). \<exists>v ab gtd.
        across velocity_made (run_log U L av en w) = [v]
        \<and> across abundance_made (run_log U L av en w) = [ab]
        \<and> across gtdratio_made (run_log U L av en w) = [gtd]
        \<and> a = (v, ab, gtd))
   \<and> (\<forall>f\<in>set (across field_passed (run_log U L av en w)). \<exists>dE dD T.
        across env_made (run_log U L av en w) = [dE]
        \<and> across disc_made (run_log U L av en w) = [dD]
        \<and> across temperature_made (run_log U L av en w) = [T]
        \<and> (f = total (composite_density dE dD) \<or> f = temp_total T
            \<or> f = dens_plot (composite_density dE dD)
            \<or> f = field_mul (temp_total T) (dens_plot (composite_density dE dD))))"
  using run_sat_run [OF objects_of_run, of U L av en w] by simp

theorem objects_read_as_created_witness:
  "run_result solar_units sample_library [] [] 0 = Inr ()
   \<and> length (across env_made (run_log solar_units sample_library [] [] 0)) = 1
   \<and> length (across disc_made (run_log solar_units sample_library [] [] 0)) = 1
   \<and> \<lparr>NPoints = 8000000, grid_rest = ''grid''\<rparr>
     \<in> set (across grid_passed (run_log solar_units sample_library [] [] 0))
   \<and> across grid_made (run_log solar_units sample_library [] [] 0)
       = [\<lparr>NPoints = 8000000, grid_rest = ''grid''\<rparr>]
   \<and> \<lparr>temp_total = (\<lambda>_. 100), temp_rest = ''temperature''\<rparr>
     \<in> set (across temperature_passed (run_log solar_units sample_library [] [] 0))
   \<and> across temperature_made (run_log solar_units sample_library [] [] 0)
       = [\<lparr>temp_total = (\<lambda>_. 100), temp_rest = ''temperature''\<rparr>]
   \<and> (''vel'', ''abundance'', ''gtdratio'')
     \<in> set (across array_passed (run_log solar_units sample_library [] [] 0))
   \<and> across velocity_made (run_log solar_units sample_library [] [] 0) = [''vel'']"
proof -
  let ?log = "run_log solar_units sample_library [] [] 0"
  have passed:
    "\<lparr>NPoints = 8000000, grid_rest = ''grid''\<rparr> \<in> set (across grid_passed ?log)"
    "\<lparr>temp_total = (\<lambda>_. 100), temp_rest = ''temperature''\<rparr>
       \<in> set (across temperature_passed ?log)"
    "(''vel'', ''abundance'', ''gtdratio'') \<in> set (across array_passed ?log)"
    by (simp_all add: run_eval sample_library_def solar_units_def Let_def across_def
          grid_args_def Env_Disc_args_def)
  note inst = objects_read_as_created [of solar_units sample_library "[]" "[]" 0]
  from inst passed(1) have "across grid_made ?log = [\<lparr>NPoints = 8000000, grid_rest = ''grid''\<rparr>]"
    by blast
  moreover from inst passed(2)
  have "across temperature_made ?log = [\<lparr>temp_total = (\<lambda>_. 100), temp_rest = ''temperature''\<rparr>]"
    by blast
  moreover from inst passed(3) have "across velocity_made ?log = [''vel'']"
    by fastforce
  moreover have ok: "run_result solar_units sample_library [] [] 0 = Inr ()"
    by (rule sample_completes)
  moreover from inst ok have "length (across env_made ?log) = 1"
    and "length (across disc_made ?log) = 1"
    by simp_all
  ultimately show ?thesis
    using passed by simp
qed

subsection \<open>Command line and environment\<close>

text \<open>
  C7. Two runs that differ only in the command line and in the environment variables,
  over the same library and from the same world, have the same result, make the same
  calls with the same arguments and outcomes, and leave the same world.
\<close>

theorem command_line_and_environment_ignored:
  "run_result U L av en w = run_result U L av' en' w
   \<and> run_log U L av en w = run_log U L av' en' w
   \<and> run_world U L av en w = run_world U L av' en' w"
proof -
  have "world (initial av en w :: ('a, 'b) state) = world (initial av' en' w :: ('a, 'b) state)
      \<and> trace (initial av en w :: ('a, 'b) state) = trace (initial av' en' w :: ('a, 'b) state)"
    by (simp add: initial_def)
  with oblivious_script [of U L] show ?thesis
    unfolding oblivious_def run_result_def run_log_def run_world_def run_def by blast
qed

subsection \<open>Termination\<close>

text \<open>
  C8. The module body is a straight line, without recursion or loop. When every call that
  the run makes into the library returns normally, and the unit constants \<open>MSun\<close>,
  \<open>RSun\<close> and \<open>LSun\<close> of the library are not zero, the run ends normally, after it has
  made every call of the script once, in order; its last call is the plot of the
  emissivity.
\<close>

theorem run_ends_after_last_plot:
  assumes "all_returned (run_log U L av en w)"
    and "MSun U \<noteq> 0" and "RSun U \<noteq> 0" and "LSun U \<noteq> 0"
  shows "run_result U L av en w = Inr ()
       \<and> map fn_of (run_log U L av en w) = calls_in_order
       \<and> image_file (last (run_log U L av en w)) = Some (F_plane2D, ''Emissivity_Burger.png'')"
proof -
  obtain p where "general_parameters U = Inr p"
    using general_parameters_total [OF assms(2-4)] by blast
  from run_sat_run [OF final_call_of_run [OF this], of L av en w] assms(1) show ?thesis
    by simp
qed

theorem run_ends_after_last_plot_witness:
  "all_returned (run_log solar_units sample_library [] [] 0)
   \<and> MSun solar_units \<noteq> 0 \<and> RSun solar_units \<noteq> 0 \<and> LSun solar_units \<noteq> 0
   \<and> run_result solar_units sample_library [] [] 0 = Inr ()
   \<and> map fn_of (run_log solar_units sample_library [] [] 0) = calls_in_order
   \<and> image_file (last (run_log solar_units sample_library [] [] 0))
       = Some (F_plane2D, ''Emissivity_Burger.png'')"
proof -
  have returned: "all_returned (run_log solar_units sample_library [] [] 0)"
    by (simp add: run_eval sample_library_def solar_units_def Let_def all_returned_def
          exception_of_def)
  have units: "MSun solar_units \<noteq> 0" "RSun solar_units \<noteq> 0" "LSun solar_units \<noteq> 0"
    by (simp_all add: solar_units_def)
  from run_ends_after_last_plot [OF returned units] returned units
  show ?thesis by simp
qed

end
